theory Spec2Isabelle
  imports Complex_Main
begin

section \<open>Organic matter accretion models (src/src/omac_mod.py)\<close>

text \<open>
  The six classes of \<^verbatim>\<open>omac_mod.py\<close> (NULLMOD, VDK05MOD, M12MOD, DA07MOD, KM12MOD,
  K16MOD) are embedded method by method. Conventions of the embedding:

  \<^item> A numpy \<^verbatim>\<open>float64\<close> is a \<^typ>\<open>real\<close>: rounding, overflow and the values
    \<^verbatim>\<open>inf\<close> and \<^verbatim>\<open>nan\<close> are outside the model. Where numpy would produce
    \<^verbatim>\<open>inf\<close> or \<^verbatim>\<open>nan\<close> from finite operands (a division by zero, a negative base
    under a fractional exponent) it warns and goes on; the reals have no such value, so the
    model stops the call with \<open>FloatingPointError\<close> (the exception numpy raises for these
    under \<^verbatim>\<open>np.seterr(all='raise')\<close>). What numpy would go on to compute from such a
    value is not modelled. Python raises an IndexError at once and only warns of these,
    so within a method the table reads are checked before the divisors.
  \<^item> A one-dimensional numpy array is a list; the two-column arrays \<^verbatim>\<open>OM\<close> and
    \<^verbatim>\<open>DecayOM\<close> are lists of pairs. The buffers of one call are index-aligned: a call
    whose buffers differ in length is stopped with \<open>ShapeError\<close>.
  \<^item> \<^verbatim>\<open>tbl[pft[indice]]\<close> reads a per-pft coefficient table at the pft code of every
    selected cell. An index outside the table raises \<^verbatim>\<open>IndexError\<close>; a negative index
    counts from the end of the table, as in Python.
  \<^item> \<^verbatim>\<open>buf[indice] = v\<close> writes the selected cells and leaves the others as they are.
  \<^item> A method that mutates a buffer in place and returns it is a function returning the
    new buffer. An exception is the value \<open>Inl e\<close>.
\<close>

datatype error = ShapeError | IndexError | FloatingPointError

text \<open>
  The dictionary \<^verbatim>\<open>inputs\<close>: the driving data of one call. The tidal range, the
  water level, the temperature and the time step are scalars, the month and the day of
  year Python integers.
\<close>

record inputs =
  zh :: "real list"
  pft :: "int list"
  Bag :: "real list"
  Bbg :: "real list"
  DepOM :: "real list"
  S :: "real list"
  OM :: "(real \<times> real) list"
  DecayOM :: "(real \<times> real) list"
  TR :: real
  MHHW :: real
  Tair :: real
  dt :: real
  month :: int
  dofy :: int

text \<open>The dictionary \<^verbatim>\<open>m_params\<close>: tables indexed by pft are lists, the others scalars.\<close>

record params =
  aa :: "real list"
  bb :: "real list"
  cc :: "real list"
  rB0 :: "real list"
  Bmax :: "real list"
  czh :: "real list"
  dP :: "real list"
  dB :: "real list"
  Kr :: "real list"
  Tr :: "real list"
  phi :: "real list"
  Qom0 :: real
  rhoOM :: real
  omega :: real
  mps :: real
  thetaBG :: "real list"
  Dmbm :: "real list"
  Tref :: "real list"
  sigmaB :: "real list"
  rBmin :: real
  rGmin :: real
  rGps :: real
  jdps :: real
  kl0 :: real
  kr0 :: real
  TrefOM :: real
  sigmaOM :: real
  gammaB :: real
  Gmgv :: real
  b2mgv :: real
  b3mgv :: real
  Mhmax :: real
  Mdmax :: real

subsection \<open>Array primitives\<close>

text \<open>\<^verbatim>\<open>tbl[k]\<close> for an integer \<open>k\<close>: defined when \<open>-len \<le> k < len\<close>.\<close>

definition in_table :: "real list \<Rightarrow> int \<Rightarrow> bool" where
  "in_table tbl k = (- int (length tbl) \<le> k \<and> k < int (length tbl))"

definition param_at :: "real list \<Rightarrow> int \<Rightarrow> real" where
  "param_at tbl k = tbl ! nat (if k < 0 then int (length tbl) + k else k)"

text \<open>Every table of a list is read at the same pft code, as in \<^verbatim>\<open>aa[k]*x + bb[k]\<close>.\<close>

definition in_tables :: "real list list \<Rightarrow> int \<Rightarrow> bool" where
  "in_tables tbls k = list_all (\<lambda>tbl. in_table tbl k) tbls"

text \<open>\<^verbatim>\<open>buf[indice] = v\<close>, where \<open>v i\<close> is the value computed for the selected cell \<open>i\<close>.\<close>

definition masked_assign :: "real list \<Rightarrow> (nat \<Rightarrow> bool) \<Rightarrow> (nat \<Rightarrow> real) \<Rightarrow> real list" where
  "masked_assign buf indice v = map (\<lambda>i. if indice i then v i else buf ! i) [0..<length buf]"

text \<open>The buffers of a call are index-aligned: each of the lengths is \<open>n\<close>.\<close>

definition aligned :: "nat \<Rightarrow> nat list \<Rightarrow> bool" where
  "aligned n ks = list_all (\<lambda>k. k = n) ks"

text \<open>Some selected cell among the first \<open>n\<close> has the fault \<open>bad\<close>.\<close>

definition some_cell :: "nat \<Rightarrow> (nat \<Rightarrow> bool) \<Rightarrow> (nat \<Rightarrow> bool) \<Rightarrow> bool" where
  "some_cell n indice bad = list_ex (\<lambda>i. indice i \<and> bad i) [0..<n]"

subsection \<open>NULLMOD\<close>

text \<open>\<^verbatim>\<open>DepOM[:] = 0.0; return DepOM\<close>\<close>

definition NULLMOD_organic_deposition :: "inputs \<Rightarrow> error + real list" where
  "NULLMOD_organic_deposition inp = Inr (replicate (length (DepOM inp)) 0)"

text \<open>The mask of lines 52-53: \<open>0 \<le> zh \<le> MHT\<close> and \<open>2 \<le> pft \<le> 5\<close>, with \<open>MHT = 0.5 * TR\<close>.\<close>

definition NULLMOD_indice :: "inputs \<Rightarrow> nat \<Rightarrow> bool" where
  "NULLMOD_indice inp i =
     ((zh inp ! i \<ge> 0 \<and> zh inp ! i \<le> 0.5 * TR inp) \<and> (pft inp ! i \<ge> 2 \<and> pft inp ! i \<le> 5))"

text \<open>Lines 54-56: \<open>DMHT\<close> is computed for the whole transect, then read at the selected cells.\<close>

definition NULLMOD_Bag :: "params \<Rightarrow> inputs \<Rightarrow> nat \<Rightarrow> real" where
  "NULLMOD_Bag p inp i =
     (let MHT = 0.5 * TR inp;
          DMHT = map (\<lambda>z. MHT - z) (zh inp)
      in max 0 (param_at (aa p) (pft inp ! i) * DMHT ! i
                + param_at (bb p) (pft inp ! i) * (DMHT ! i)\<^sup>2
                + param_at (cc p) (pft inp ! i)))"

definition NULLMOD_aboveground_biomass :: "params \<Rightarrow> inputs \<Rightarrow> error + real list" where
  "NULLMOD_aboveground_biomass p inp =
     (let n = length (Bag inp) in
      if \<not> aligned n [length (zh inp), length (pft inp)] then Inl ShapeError
      else if some_cell n (NULLMOD_indice inp)
                (\<lambda>i. \<not> in_tables [aa p, bb p, cc p] (pft inp ! i))
           then Inl IndexError
      else Inr (masked_assign (Bag inp) (NULLMOD_indice inp) (NULLMOD_Bag p inp)))"

subsection \<open>VDK05MOD\<close>

definition VDK05MOD_organic_deposition :: "inputs \<Rightarrow> error + real list" where
  "VDK05MOD_organic_deposition inp = Inr (replicate (length (DepOM inp)) 0)"

text \<open>Line 100: the mask is \<open>2 \<le> pft \<le> 5\<close>, with no condition on the elevation.\<close>

definition VDK05MOD_indice :: "inputs \<Rightarrow> nat \<Rightarrow> bool" where
  "VDK05MOD_indice inp i = (pft inp ! i \<ge> 2 \<and> pft inp ! i \<le> 5)"

text \<open>Lines 101-103: the net growth rate \<open>A\<close> of a selected cell.\<close>

definition VDK05MOD_A :: "params \<Rightarrow> inputs \<Rightarrow> nat \<Rightarrow> real" where
  "VDK05MOD_A p inp i =
     param_at (rB0 p) (pft inp ! i) * (1 - Bag inp ! i / param_at (Bmax p) (pft inp ! i))
       * (max (zh inp ! i) 0 / (max (zh inp ! i) 0 + param_at (czh p) (pft inp ! i)))
     - param_at (dP p) (pft inp ! i) - param_at (dB p) (pft inp ! i) * S inp ! i"

text \<open>Line 104; \<open>3.1536e7\<close> is the number of seconds of a year.\<close>

definition VDK05MOD_Bag :: "params \<Rightarrow> inputs \<Rightarrow> nat \<Rightarrow> real" where
  "VDK05MOD_Bag p inp i =
     (let A = VDK05MOD_A p inp i
      in max 0 (Bag inp ! i * (1 + A * dt inp / 31536000) / (1 - A * dt inp / 31536000)))"

text \<open>The denominators of lines 101-104.\<close>

definition VDK05MOD_fault :: "params \<Rightarrow> inputs \<Rightarrow> nat \<Rightarrow> bool" where
  "VDK05MOD_fault p inp i =
     (param_at (Bmax p) (pft inp ! i) = 0
      \<or> max (zh inp ! i) 0 + param_at (czh p) (pft inp ! i) = 0
      \<or> 1 - VDK05MOD_A p inp i * dt inp / 31536000 = 0)"

definition VDK05MOD_aboveground_biomass :: "params \<Rightarrow> inputs \<Rightarrow> error + real list" where
  "VDK05MOD_aboveground_biomass p inp =
     (let n = length (Bag inp) in
      if \<not> aligned n [length (zh inp), length (pft inp), length (S inp)] then Inl ShapeError
      else if some_cell n (VDK05MOD_indice inp)
                (\<lambda>i. \<not> in_tables [rB0 p, Bmax p, czh p, dP p, dB p] (pft inp ! i))
           then Inl IndexError
      else if some_cell n (VDK05MOD_indice inp) (VDK05MOD_fault p inp) then Inl FloatingPointError
      else Inr (masked_assign (Bag inp) (VDK05MOD_indice inp) (VDK05MOD_Bag p inp)))"

subsection \<open>M12MOD\<close>

text \<open>Lines 133-136: the buffer is zeroed, then the cells with \<open>Bag > 0\<close> are written.\<close>

definition M12MOD_DepOM :: "params \<Rightarrow> inputs \<Rightarrow> nat \<Rightarrow> real" where
  "M12MOD_DepOM p inp i =
     param_at (Kr p) (pft inp ! i) * (param_at (phi p) (pft inp ! i) * Bag inp ! i)
       / (param_at (Tr p) (pft inp ! i) * 31536000)"

definition M12MOD_organic_deposition :: "params \<Rightarrow> inputs \<Rightarrow> error + real list" where
  "M12MOD_organic_deposition p inp =
     (let n = length (DepOM inp);
          indice = (\<lambda>i. Bag inp ! i > 0)
      in if \<not> aligned n [length (Bag inp), length (pft inp)] then Inl ShapeError
         else if some_cell n indice (\<lambda>i. \<not> in_tables [Kr p, phi p, Tr p] (pft inp ! i))
              then Inl IndexError
         else if some_cell n indice (\<lambda>i. param_at (Tr p) (pft inp ! i) * 31536000 = 0)
              then Inl FloatingPointError
         else Inr (masked_assign (replicate n 0) indice (M12MOD_DepOM p inp)))"

definition M12MOD_indice :: "inputs \<Rightarrow> nat \<Rightarrow> bool" where
  "M12MOD_indice inp i =
     ((zh inp ! i \<ge> 0 \<and> zh inp ! i \<le> 0.5 * TR inp) \<and> (pft inp ! i \<ge> 2 \<and> pft inp ! i \<le> 5))"

text \<open>Lines 154-156: here \<open>DMHT\<close> is computed at the selected cells only.\<close>

definition M12MOD_Bag :: "params \<Rightarrow> inputs \<Rightarrow> nat \<Rightarrow> real" where
  "M12MOD_Bag p inp i =
     (let MHT = 0.5 * TR inp;
          DMHT = MHT - zh inp ! i
      in max 0 (param_at (aa p) (pft inp ! i) * DMHT
                + param_at (bb p) (pft inp ! i) * DMHT\<^sup>2
                + param_at (cc p) (pft inp ! i)))"

definition M12MOD_aboveground_biomass :: "params \<Rightarrow> inputs \<Rightarrow> error + real list" where
  "M12MOD_aboveground_biomass p inp =
     (let n = length (Bag inp) in
      if \<not> aligned n [length (zh inp), length (pft inp)] then Inl ShapeError
      else if some_cell n (M12MOD_indice inp)
                (\<lambda>i. \<not> in_tables [aa p, bb p, cc p] (pft inp ! i))
           then Inl IndexError
      else Inr (masked_assign (Bag inp) (M12MOD_indice inp) (M12MOD_Bag p inp)))"

subsection \<open>DA07MOD\<close>

text \<open>
  Lines 185-187. \<^verbatim>\<open>utils.TOL\<close> is a constant of the module \<^verbatim>\<open>maces_utilities\<close>, which is
  not among the sources: it is the first argument.
\<close>

definition DA07MOD_DepOM :: "params \<Rightarrow> inputs \<Rightarrow> nat \<Rightarrow> real" where
  "DA07MOD_DepOM p inp i =
     Qom0 p / 31536000 * rhoOM p * Bag inp ! i / param_at (Bmax p) (pft inp ! i)"

definition DA07MOD_organic_deposition :: "real \<Rightarrow> params \<Rightarrow> inputs \<Rightarrow> error + real list" where
  "DA07MOD_organic_deposition TOL p inp =
     (let n = length (DepOM inp);
          indice = (\<lambda>i. Bag inp ! i > TOL)
      in if \<not> aligned n [length (Bag inp), length (pft inp)] then Inl ShapeError
         else if some_cell n indice (\<lambda>i. \<not> in_table (Bmax p) (pft inp ! i)) then Inl IndexError
         else if some_cell n indice (\<lambda>i. param_at (Bmax p) (pft inp ! i) = 0)
              then Inl FloatingPointError
         else Inr (masked_assign (replicate n 0) indice (DA07MOD_DepOM p inp)))"

text \<open>Line 204: the mask is \<open>0 \<le> zh \<le> MHT\<close>; the pft is not tested.\<close>

definition DA07MOD_indice :: "inputs \<Rightarrow> nat \<Rightarrow> bool" where
  "DA07MOD_indice inp i = (zh inp ! i \<ge> 0 \<and> zh inp ! i \<le> 0.5 * TR inp)"

text \<open>Lines 205-207, with \<open>m\<close> the month.\<close>

definition DA07MOD_Bag :: "params \<Rightarrow> inputs \<Rightarrow> nat \<Rightarrow> real" where
  "DA07MOD_Bag p inp i =
     (let MHT = 0.5 * TR inp;
          m = real_of_int (month inp);
          Bps = (MHT - zh inp ! i) / MHT * param_at (Bmax p) (pft inp ! i)
      in 0.5 * Bps * (1 - omega p) * (sin (pi * m / 6 - mps p * pi / 12) + 1) + omega p * Bps)"

definition DA07MOD_aboveground_biomass :: "params \<Rightarrow> inputs \<Rightarrow> error + real list" where
  "DA07MOD_aboveground_biomass p inp =
     (let n = length (Bag inp) in
      if \<not> aligned n [length (zh inp), length (pft inp)] then Inl ShapeError
      else if some_cell n (DA07MOD_indice inp) (\<lambda>i. \<not> in_table (Bmax p) (pft inp ! i))
           then Inl IndexError
      else if some_cell n (DA07MOD_indice inp) (\<lambda>i. 0.5 * TR inp = 0) then Inl FloatingPointError
      else Inr (masked_assign (Bag inp) (DA07MOD_indice inp) (DA07MOD_Bag p inp)))"

subsection \<open>KM12MOD\<close>

text \<open>The mask of every method of the class: \<open>0 \<le> zh \<le> MHHW\<close>.\<close>

definition KM12MOD_indice :: "inputs \<Rightarrow> nat \<Rightarrow> bool" where
  "KM12MOD_indice inp i = (zh inp ! i \<ge> 0 \<and> zh inp ! i \<le> MHHW inp)"

text \<open>The root:shoot quotient (lines 250 and 302).\<close>

definition KM12MOD_phi :: "params \<Rightarrow> inputs \<Rightarrow> nat \<Rightarrow> real" where
  "KM12MOD_phi p inp i =
     param_at (thetaBG p) (pft inp ! i) * (MHHW inp - zh inp ! i) + param_at (Dmbm p) (pft inp ! i)"

text \<open>The peak season biomass (lines 252-253 and 281-282).\<close>

definition KM12MOD_Bps :: "params \<Rightarrow> inputs \<Rightarrow> nat \<Rightarrow> real" where
  "KM12MOD_Bps p inp i =
     param_at (Bmax p) (pft inp ! i) * (MHHW inp - zh inp ! i) / MHHW inp
       * (1 + (Tair inp - param_at (Tref p) (pft inp ! i)) * param_at (sigmaB p) (pft inp ! i))"

text \<open>Lines 247 and 254-260.\<close>

definition KM12MOD_DepOM :: "params \<Rightarrow> inputs \<Rightarrow> nat \<Rightarrow> real" where
  "KM12MOD_DepOM p inp i =
     (let jd = real_of_int (dofy inp);
          jd_phi = 56;
          Bps = KM12MOD_Bps p inp i;
          Bmin = rBmin p * Bps;
          Gmin = rGmin p / 86400 * Bps;
          Gps = rGps p / 86400 * Bps;
          Mag = 0.5 * (Gmin + Gps + (Gps - Gmin) * cos (2 * pi * (jd - jdps p + jd_phi) / 365))
                + pi / 365 * (Bps - Bmin) * sin (2 * pi * (jd - jdps p) / 365)
      in max (KM12MOD_phi p inp i) 0 * max Mag 0)"

definition KM12MOD_organic_deposition :: "params \<Rightarrow> inputs \<Rightarrow> error + real list" where
  "KM12MOD_organic_deposition p inp =
     (let n = length (DepOM inp) in
      if \<not> aligned n [length (zh inp), length (pft inp)] then Inl ShapeError
      else if some_cell n (KM12MOD_indice inp)
                (\<lambda>i. \<not> in_tables [thetaBG p, Dmbm p, Bmax p, Tref p, sigmaB p] (pft inp ! i))
           then Inl IndexError
      else if some_cell n (KM12MOD_indice inp) (\<lambda>i. MHHW inp = 0) then Inl FloatingPointError
      else Inr (masked_assign (replicate n 0) (KM12MOD_indice inp) (KM12MOD_DepOM p inp)))"

text \<open>Lines 283-285.\<close>

definition KM12MOD_Bag :: "params \<Rightarrow> inputs \<Rightarrow> nat \<Rightarrow> real" where
  "KM12MOD_Bag p inp i =
     (let jd = real_of_int (dofy inp);
          Bps = KM12MOD_Bps p inp i;
          Bmin = rBmin p * Bps
      in max (0.5 * (Bmin + Bps + (Bps - Bmin) * cos (2 * pi * (jd - jdps p) / 365))) 0)"

definition KM12MOD_aboveground_biomass :: "params \<Rightarrow> inputs \<Rightarrow> error + real list" where
  "KM12MOD_aboveground_biomass p inp =
     (let n = length (Bag inp) in
      if \<not> aligned n [length (zh inp), length (pft inp)] then Inl ShapeError
      else if some_cell n (KM12MOD_indice inp)
                (\<lambda>i. \<not> in_tables [Bmax p, Tref p, sigmaB p] (pft inp ! i))
           then Inl IndexError
      else if some_cell n (KM12MOD_indice inp) (\<lambda>i. MHHW inp = 0) then Inl FloatingPointError
      else Inr (masked_assign (Bag inp) (KM12MOD_indice inp) (KM12MOD_Bag p inp)))"

text \<open>Line 303.\<close>

definition KM12MOD_Bbg :: "params \<Rightarrow> inputs \<Rightarrow> nat \<Rightarrow> real" where
  "KM12MOD_Bbg p inp i = max (KM12MOD_phi p inp i) 0 * max (Bag inp ! i) 0"

definition KM12MOD_belowground_biomass :: "params \<Rightarrow> inputs \<Rightarrow> error + real list" where
  "KM12MOD_belowground_biomass p inp =
     (let n = length (Bbg inp) in
      if \<not> aligned n [length (zh inp), length (pft inp), length (Bag inp)] then Inl ShapeError
      else if some_cell n (KM12MOD_indice inp)
                (\<lambda>i. \<not> in_tables [thetaBG p, Dmbm p] (pft inp ! i))
           then Inl IndexError
      else Inr (masked_assign (Bbg inp) (KM12MOD_indice inp) (KM12MOD_Bbg p inp)))"

text \<open>
  Lines 320-324: a row of \<^verbatim>\<open>OM\<close> is the pair \<open>(Cl, Cr)\<close> of the labile and the refractory
  pool; every row of \<^verbatim>\<open>DecayOM\<close> is written, with no mask and no clamp.
\<close>

definition KM12MOD_soilcarbon_decay :: "params \<Rightarrow> inputs \<Rightarrow> error + (real \<times> real) list" where
  "KM12MOD_soilcarbon_decay p inp =
     (let Tsoi = Tair inp in
      if length (OM inp) \<noteq> length (DecayOM inp) then Inl ShapeError
      else Inr (map (\<lambda>(Cl, Cr).
                  (((1 + (Tsoi - TrefOM p) * sigmaOM p) * kl0 p / 31536000) * Cl,
                   ((1 + (Tsoi - TrefOM p) * sigmaOM p) * kr0 p / 31536000) * Cr))
                (OM inp)))"

subsection \<open>K16MOD\<close>

text \<open>The private arrays of an instance, and the constructor (lines 341-344).\<close>

record K16MOD_state =
  Md :: "real list"
  Mh :: "real list"

definition K16MOD_init :: "nat \<Rightarrow> K16MOD_state" where
  "K16MOD_init nx = \<lparr>Md = replicate nx 0, Mh = replicate nx 0\<rparr>"

text \<open>Line 357: every cell is written.\<close>

definition K16MOD_organic_deposition :: "params \<Rightarrow> inputs \<Rightarrow> error + real list" where
  "K16MOD_organic_deposition p inp =
     (if length (Bag inp) \<noteq> length (DepOM inp) then Inl ShapeError
      else Inr (map (\<lambda>b. rhoOM p * gammaB p / 31536000 * b) (Bag inp)))"

text \<open>Line 377.\<close>

definition K16MOD_indice_zh :: "inputs \<Rightarrow> nat \<Rightarrow> bool" where
  "K16MOD_indice_zh inp i = (zh inp ! i \<ge> 0 \<and> zh inp ! i \<le> 0.5 * TR inp)"

text \<open>
  The right-hand side of lines 382-383, which lines 389-390 repeat: \<open>b\<close> is the biomass of
  the cell and \<open>bmax\<close> its \<^verbatim>\<open>Bmax[pft]\<close>.
\<close>

definition K16MOD_marsh_Bag :: "real \<Rightarrow> real \<Rightarrow> real \<Rightarrow> real \<Rightarrow> real \<Rightarrow> real" where
  "K16MOD_marsh_Bag rz mz bmax dtime b =
     max ((1 + 0.5 * (rz * (1 - b / bmax) - mz) * dtime) * b
            / (1 - 0.5 * (rz * (1 - b / bmax) - mz) * dtime)) 0"

definition K16MOD_marsh_fault :: "real \<Rightarrow> real \<Rightarrow> real \<Rightarrow> real \<Rightarrow> real \<Rightarrow> real \<Rightarrow> bool" where
  "K16MOD_marsh_fault MHT rz mz bmax dtime b =
     (MHT = 0 \<or> bmax = 0 \<or> 1 - 0.5 * (rz * (1 - b / bmax) - mz) * dtime = 0)"

text \<open>Lines 379-381: Spartina alterniflora dominated marshes.\<close>

definition K16MOD_indice2 :: "inputs \<Rightarrow> nat \<Rightarrow> bool" where
  "K16MOD_indice2 inp i = (K16MOD_indice_zh inp i \<and> pft inp ! i = 2)"

definition K16MOD_rz2 :: "inputs \<Rightarrow> nat \<Rightarrow> real" where
  "K16MOD_rz2 inp i = (1 - 0.5 * zh inp ! i / (0.5 * TR inp)) / 31536000"

definition K16MOD_mz2 :: "inputs \<Rightarrow> nat \<Rightarrow> real" where
  "K16MOD_mz2 inp i = 0.5 * zh inp ! i / (0.5 * TR inp) / 31536000"

text \<open>Lines 385-388: multi-species marshes.\<close>

definition K16MOD_indice34 :: "inputs \<Rightarrow> nat \<Rightarrow> bool" where
  "K16MOD_indice34 inp i = ((pft inp ! i = 3 \<or> pft inp ! i = 4) \<and> K16MOD_indice_zh inp i)"

definition K16MOD_rz34 :: "inputs \<Rightarrow> nat \<Rightarrow> real" where
  "K16MOD_rz34 inp i = 0.5 * (1 + zh inp ! i / (0.5 * TR inp))"

definition K16MOD_mz34 :: "inputs \<Rightarrow> nat \<Rightarrow> real" where
  "K16MOD_mz34 inp i = 0.5 * (1 - zh inp ! i / (0.5 * TR inp))"

text \<open>Lines 392-394: mangroves, and the inundation index \<open>I\<close>.\<close>

definition K16MOD_indice5 :: "inputs \<Rightarrow> nat \<Rightarrow> bool" where
  "K16MOD_indice5 inp i = (K16MOD_indice_zh inp i \<and> pft inp ! i = 5)"

definition K16MOD_I :: "inputs \<Rightarrow> nat \<Rightarrow> real" where
  "K16MOD_I inp i = (let P = 1 - zh inp ! i / (0.5 * TR inp) in max (4 * P - 8 * P\<^sup>2 + 0.5) 0)"

text \<open>Lines 395-397: the new diameter of a mangrove cell, from the old diameter and height.\<close>

definition K16MOD_Md :: "params \<Rightarrow> K16MOD_state \<Rightarrow> inputs \<Rightarrow> nat \<Rightarrow> real" where
  "K16MOD_Md p st inp i =
     Md st ! i + dt inp * K16MOD_I inp i * Gmgv p / Mdmax p / Mhmax p
                   * Md st ! i * (1 - Md st ! i * Mh st ! i)
                   / (274 + 3 * b2mgv p * Md st ! i - 4 * b3mgv p * (Md st ! i)\<^sup>2)"

text \<open>The denominators of lines 393-397.\<close>

definition K16MOD_Md_fault :: "params \<Rightarrow> K16MOD_state \<Rightarrow> inputs \<Rightarrow> nat \<Rightarrow> bool" where
  "K16MOD_Md_fault p st inp i =
     (0.5 * TR inp = 0 \<or> Mdmax p = 0 \<or> Mhmax p = 0
      \<or> 274 + 3 * b2mgv p * Md st ! i - 4 * b3mgv p * (Md st ! i)\<^sup>2 = 0)"

text \<open>
  Lines 395-400 on the buffer \<open>bag\<close>. Line 399 divides by the new diameter and line 400
  raises it to the power 2.11, which numpy defines for a positive diameter (and for 0).
\<close>

definition K16MOD_mangrove ::
  "params \<Rightarrow> K16MOD_state \<Rightarrow> inputs \<Rightarrow> real list \<Rightarrow> error + (K16MOD_state \<times> real list)" where
  "K16MOD_mangrove p st inp bag =
     (let n = length bag;
          indice = K16MOD_indice5 inp;
          Md' = masked_assign (Md st) indice (K16MOD_Md p st inp);
          Mh' = masked_assign (Mh st) indice
                  (\<lambda>i. 137 + b2mgv p * Md' ! i + b3mgv p * (Md' ! i)\<^sup>2);
          rout = (\<lambda>i. 0.5 / Md' ! i)
      in if some_cell n indice (K16MOD_Md_fault p st inp) then Inl FloatingPointError
         else if some_cell n indice (\<lambda>i. Md' ! i = 0 \<or> Md' ! i < 0) then Inl FloatingPointError
         else Inr (\<lparr>Md = Md', Mh = Mh'\<rparr>,
                   masked_assign bag indice (\<lambda>i. rout i * 0.308 * (Md' ! i) powr 2.11)))"

text \<open>
  The method. Python raises the IndexError of a table read whichever line has it, while a
  floating-point fault only warns: the table reads of lines 382 and 389 are checked first.
\<close>

definition K16MOD_aboveground_biomass ::
  "params \<Rightarrow> K16MOD_state \<Rightarrow> inputs \<Rightarrow> error + (K16MOD_state \<times> real list)" where
  "K16MOD_aboveground_biomass p st inp =
     (let n = length (Bag inp);
          MHT = 0.5 * TR inp;
          bmax = (\<lambda>i. param_at (Bmax p) (pft inp ! i));
          rz2 = K16MOD_rz2 inp; mz2 = K16MOD_mz2 inp;
          rz34 = K16MOD_rz34 inp; mz34 = K16MOD_mz34 inp
      in if \<not> aligned n [length (zh inp), length (pft inp), length (Md st), length (Mh st)]
         then Inl ShapeError
         else if some_cell n (\<lambda>i. K16MOD_indice2 inp i \<or> K16MOD_indice34 inp i)
                   (\<lambda>i. \<not> in_table (Bmax p) (pft inp ! i))
              then Inl IndexError
         else if some_cell n (K16MOD_indice2 inp)
                   (\<lambda>i. K16MOD_marsh_fault MHT (rz2 i) (mz2 i) (bmax i) (dt inp) (Bag inp ! i))
              then Inl FloatingPointError
         else let bag2 = masked_assign (Bag inp) (K16MOD_indice2 inp)
                           (\<lambda>i. K16MOD_marsh_Bag (rz2 i) (mz2 i) (bmax i) (dt inp) (Bag inp ! i))
              in if some_cell n (K16MOD_indice34 inp)
                      (\<lambda>i. K16MOD_marsh_fault MHT (rz34 i) (mz34 i) (bmax i) (dt inp) (bag2 ! i))
                 then Inl FloatingPointError
                 else let bag34 = masked_assign bag2 (K16MOD_indice34 inp)
                                    (\<lambda>i. K16MOD_marsh_Bag (rz34 i) (mz34 i) (bmax i) (dt inp) (bag2 ! i))
                      in K16MOD_mangrove p st inp bag34)"

text \<open>Lines 417-423; the private diameters are read, not written.\<close>

definition K16MOD_indice234 :: "inputs \<Rightarrow> nat \<Rightarrow> bool" where
  "K16MOD_indice234 inp i = ((pft inp ! i \<ge> 2 \<and> pft inp ! i \<le> 4) \<and> K16MOD_indice_zh inp i)"

definition K16MOD_belowground_biomass ::
  "params \<Rightarrow> K16MOD_state \<Rightarrow> inputs \<Rightarrow> error + real list" where
  "K16MOD_belowground_biomass p st inp =
     (let n = length (Bbg inp);
          rout = (\<lambda>i. 0.5 / Md st ! i)
      in if \<not> aligned n [length (zh inp), length (pft inp), length (Bag inp), length (Md st)]
         then Inl ShapeError
         else if some_cell n (K16MOD_indice234 inp) (\<lambda>i. \<not> in_table (phi p) (pft inp ! i))
              then Inl IndexError
         else if some_cell n (K16MOD_indice5 inp) (\<lambda>i. Md st ! i = 0 \<or> Md st ! i < 0)
              then Inl FloatingPointError
         else let bbg234 = masked_assign (Bbg inp) (K16MOD_indice234 inp)
                             (\<lambda>i. param_at (phi p) (pft inp ! i) * Bag inp ! i)
              in Inr (masked_assign bbg234 (K16MOD_indice5 inp)
                        (\<lambda>i. rout i * 1.28 * (Md st ! i) powr 1.17)))"

section \<open>The closed form of the specification\<close>

text \<open>
  Sections 4.2 and 4.4 of the specification describe the biomass of NULLMOD and of M12MOD
  in the same words: where the elevation is in \<open>[0, 0.5 * TR]\<close> and the pft in \<open>[2, 5]\<close>
  the biomass becomes \<open>max(0, a * DMHT + b * DMHT\<^sup>2 + c)\<close> with
  \<open>DMHT = 0.5 * TR - zh\<close> and the coefficients of the cell's pft; elsewhere it stays.
  This definition follows those words, not the code.
\<close>

definition spec_quadratic_biomass ::
  "real list \<Rightarrow> real list \<Rightarrow> real list \<Rightarrow> inputs \<Rightarrow> nat \<Rightarrow> real" where
  "spec_quadratic_biomass a b c inp i =
     (let DMHT = 0.5 * TR inp - zh inp ! i; k = pft inp ! i
      in if (0 \<le> zh inp ! i \<and> zh inp ! i \<le> 0.5 * TR inp) \<and> (2 \<le> k \<and> k \<le> 5)
         then max 0 (param_at a k * DMHT + param_at b k * DMHT\<^sup>2 + param_at c k)
         else Bag inp ! i)"

section \<open>Vocabulary of the properties\<close>



text \<open>Every element of a buffer is at least 0.\<close>

definition nonneg :: "real list \<Rightarrow> bool" where
  "nonneg xs = list_all (\<lambda>x. 0 \<le> x) xs"

section \<open>A concrete transect\<close>

text \<open>
  A parameter set with one entry per pft code 0..8 in every table, and a transect of one
  salt marsh cell (pft 2) at elevation 0.3 m under a tidal range of 1 m: the scenario of
  section 8 of the specification. The theorems below are evaluated on variations of it.
\<close>

definition table :: "real \<Rightarrow> real list" where
  "table c = replicate 9 c"

definition ex_params :: params where
  "ex_params = \<lparr>aa = table 0.5, bb = table (- 0.1), cc = table 0.05,
     rB0 = table 4, Bmax = table 2, czh = table 1, dP = table 0, dB = table 0,
     Kr = table 0.5, Tr = table 2, phi = table 0.3,
     Qom0 = 1, rhoOM = 1, omega = 0, mps = 2,
     thetaBG = table 1, Dmbm = table 1, Tref = table 300, sigmaB = table 0,
     rBmin = 0, rGmin = 0, rGps = 0, jdps = 1,
     kl0 = 1, kr0 = 0.001, TrefOM = 300, sigmaOM = 0.05,
     gammaB = 0.002, Gmgv = 1, b2mgv = 0, b3mgv = 0, Mhmax = 1, Mdmax = 1\<rparr>"

definition ex_inputs :: inputs where
  "ex_inputs = \<lparr>zh = [0.3], pft = [2], Bag = [1], Bbg = [0], DepOM = [0], S = [0],
     OM = [(1, 1)], DecayOM = [(0, 0)], TR = 1, MHHW = 1, Tair = 300, dt = 3153600,
     month = 1, dofy = 1\<rparr>"

text \<open>A mangrove cell (pft 5) half way up the tidal frame, stepped by one second.\<close>

definition ex_mangrove :: inputs where
  "ex_mangrove = ex_inputs\<lparr>pft := [5], zh := [0.25], dt := 1\<rparr>"

text \<open>
  The salt marsh cell followed by a tidal flat cell (pft 1) one metre below mean sea level,
  which no mask of elevation or of pft selects, and the instance as constructed for two
  cells.
\<close>

definition ex_transect :: inputs where
  "ex_transect = \<lparr>zh = [0.3, - 1], pft = [2, 1], Bag = [1, 3], Bbg = [0, 5], DepOM = [0, 9],
     S = [0, 0], OM = [(1, 1), (1, 1)], DecayOM = [(0, 0), (0, 0)], TR = 1, MHHW = 1, Tair = 300,
     dt = 3153600, month = 1, dofy = 1\<rparr>"

definition ex_marsh_state :: K16MOD_state where
  "ex_marsh_state = \<lparr>Md = [0, 0], Mh = [0, 0]\<rparr>"

section \<open>Properties\<close>

subsection \<open>Array primitives\<close>

lemma aligned_Nil [simp]: "aligned n []"
  by (simp add: aligned_def)

lemma aligned_Cons [simp]: "aligned n (k # ks) \<longleftrightarrow> k = n \<and> aligned n ks"
  by (simp add: aligned_def)

lemma length_masked_assign: "length (masked_assign buf indice v) = length buf"
  by (simp add: masked_assign_def)

lemma nth_masked_assign:
  "i < length buf \<Longrightarrow> masked_assign buf indice v ! i = (if indice i then v i else buf ! i)"
  by (simp add: masked_assign_def)

lemma some_cell_iff: "some_cell n indice bad \<longleftrightarrow> (\<exists>i<n. indice i \<and> bad i)"
  by (auto simp: some_cell_def list_ex_iff)

lemma masked_assign_cong:
  "(\<And>i. i < length buf \<Longrightarrow> m i = m' i) \<Longrightarrow> (\<And>i. i < length buf \<Longrightarrow> m i \<Longrightarrow> v i = v' i)
   \<Longrightarrow> masked_assign buf m v = masked_assign buf m' v'"
  by (simp add: masked_assign_def)

text \<open>The facts that evaluate a method on the concrete transect.\<close>

lemmas eval_defs = ex_params_def ex_inputs_def ex_transect_def ex_marsh_state_def table_def
  Let_def some_cell_def masked_assign_def in_tables_def in_table_def param_at_def power2_eq_square

lemmas K16MOD_eval = K16MOD_aboveground_biomass_def K16MOD_mangrove_def K16MOD_indice2_def
  K16MOD_indice34_def K16MOD_indice5_def K16MOD_indice_zh_def K16MOD_Md_def K16MOD_Md_fault_def
  K16MOD_I_def K16MOD_marsh_fault_def K16MOD_marsh_Bag_def K16MOD_rz2_def K16MOD_mz2_def
  K16MOD_rz34_def K16MOD_mz34_def ex_mangrove_def

subsection \<open>NULLMOD control\<close>

text \<open>
  Claim C7. \<^verbatim>\<open>NULLMOD.organic_deposition\<close> returns, for every input state, a sequence of
  zeros as long as the \<^verbatim>\<open>DepOM\<close> buffer it was given; elevation, pft and biomass are not
  read.
\<close>

theorem NULLMOD_organic_deposition_zero:
  "NULLMOD_organic_deposition inp = Inr (replicate (length (DepOM inp)) 0)"
  by (simp add: NULLMOD_organic_deposition_def)

subsection \<open>M12MOD and NULLMOD share the biomass curve\<close>

lemma M12MOD_indice_eq: "M12MOD_indice = NULLMOD_indice"
  by (simp add: fun_eq_iff M12MOD_indice_def NULLMOD_indice_def)

lemma M12MOD_Bag_eq:
  "i < length (zh inp) \<Longrightarrow> aa p = aa q \<Longrightarrow> bb p = bb q \<Longrightarrow> cc p = cc q
   \<Longrightarrow> M12MOD_Bag p inp i = NULLMOD_Bag q inp i"
  by (simp add: M12MOD_Bag_def NULLMOD_Bag_def Let_def)

lemma M12MOD_eq_NULLMOD:
  assumes "aa p = aa q" "bb p = bb q" "cc p = cc q"
  shows "M12MOD_aboveground_biomass p inp = NULLMOD_aboveground_biomass q inp"
proof (cases "length (zh inp) \<noteq> length (Bag inp) \<or> length (pft inp) \<noteq> length (Bag inp)")
  case True
  then show ?thesis
    by (auto simp add: M12MOD_aboveground_biomass_def NULLMOD_aboveground_biomass_def Let_def)
next
  case False
  then have len: "length (zh inp) = length (Bag inp)" by simp
  have "masked_assign (Bag inp) (M12MOD_indice inp) (M12MOD_Bag p inp)
      = masked_assign (Bag inp) (NULLMOD_indice inp) (NULLMOD_Bag q inp)"
    by (rule masked_assign_cong) (simp_all add: M12MOD_indice_eq M12MOD_Bag_eq assms len)
  then show ?thesis
    by (simp add: M12MOD_aboveground_biomass_def NULLMOD_aboveground_biomass_def
        M12MOD_indice_eq assms Let_def)
qed

lemma NULLMOD_is_spec:
  assumes "NULLMOD_aboveground_biomass q inp = Inr out"
  shows "out = map (spec_quadratic_biomass (aa q) (bb q) (cc q) inp) [0..<length (Bag inp)]"
proof -
  from assms have len: "length (zh inp) = length (Bag inp)"
    and out: "out = masked_assign (Bag inp) (NULLMOD_indice inp) (NULLMOD_Bag q inp)"
    by (auto simp: NULLMOD_aboveground_biomass_def Let_def split: if_splits)
  show ?thesis
    unfolding out masked_assign_def
    by (rule map_cong)
      (auto simp: len NULLMOD_indice_def NULLMOD_Bag_def spec_quadratic_biomass_def Let_def)
qed

text \<open>
  Claim C5. With equal coefficient tables \<open>aa\<close>, \<open>bb\<close>, \<open>cc\<close>,
  \<^verbatim>\<open>M12MOD.aboveground_biomass\<close> returns on every input state what
  \<^verbatim>\<open>NULLMOD.aboveground_biomass\<close> returns (the same buffer, or the same exception); and a
  buffer they return is the closed form of the specification at every cell: where
  \<open>0 \<le> zh \<le> 0.5 * TR\<close> and \<open>2 \<le> pft \<le> 5\<close> it is
  \<open>max(0, aa * DMHT + bb * DMHT\<^sup>2 + cc)\<close> with \<open>DMHT = 0.5 * TR - zh\<close>, elsewhere the
  biomass of the input.
\<close>

theorem M12MOD_aboveground_biomass_is_NULLMOD:
  assumes "aa p = aa q" and "bb p = bb q" and "cc p = cc q"
  shows "M12MOD_aboveground_biomass p inp = NULLMOD_aboveground_biomass q inp
       \<and> (\<forall>out. NULLMOD_aboveground_biomass q inp = Inr out \<longrightarrow>
             out = map (spec_quadratic_biomass (aa q) (bb q) (cc q) inp) [0..<length (Bag inp)])"
  using M12MOD_eq_NULLMOD [OF assms] NULLMOD_is_spec by blast

text \<open>
  The scenario of section 8 of the specification: one cell with \<open>pft = 2\<close>, \<open>zh = 0.3\<close>,
  \<open>TR = 1\<close> and the coefficients \<open>0.5\<close>, \<open>-0.1\<close>, \<open>0.05\<close> gives \<open>0.146\<close>. The two
  parameter sets differ outside \<open>aa\<close>, \<open>bb\<close>, \<open>cc\<close>.
\<close>

theorem M12MOD_aboveground_biomass_is_NULLMOD_witness:
  "aa ex_params = aa (ex_params\<lparr>Kr := [], Bmax := []\<rparr>)
   \<and> bb ex_params = bb (ex_params\<lparr>Kr := [], Bmax := []\<rparr>)
   \<and> cc ex_params = cc (ex_params\<lparr>Kr := [], Bmax := []\<rparr>)
   \<and> M12MOD_aboveground_biomass ex_params ex_inputs = Inr [0.146]
   \<and> NULLMOD_aboveground_biomass (ex_params\<lparr>Kr := [], Bmax := []\<rparr>) ex_inputs = Inr [0.146]
   \<and> map (spec_quadratic_biomass (table 0.5) (table (- 0.1)) (table 0.05) ex_inputs) [0..<1]
       = [0.146]"
proof -
  have n: "NULLMOD_aboveground_biomass (ex_params\<lparr>Kr := [], Bmax := []\<rparr>) ex_inputs = Inr [0.146]"
    by (simp add: NULLMOD_aboveground_biomass_def NULLMOD_indice_def NULLMOD_Bag_def eval_defs
        power2_eq_square)
  have s: "map (spec_quadratic_biomass (table 0.5) (table (- 0.1)) (table 0.05) ex_inputs) [0..<1]
       = [0.146]"
    by (simp add: spec_quadratic_biomass_def eval_defs power2_eq_square)
  from M12MOD_aboveground_biomass_is_NULLMOD
    [of ex_params "ex_params\<lparr>Kr := [], Bmax := []\<rparr>" ex_inputs] n s
  show ?thesis by simp
qed

subsection \<open>The deposition of KM12MOD does not read the biomass\<close>

lemma KM12MOD_indice_Bag: "KM12MOD_indice (inp\<lparr>Bag := b\<rparr>) = KM12MOD_indice inp"
  by (simp add: fun_eq_iff KM12MOD_indice_def)

lemma KM12MOD_DepOM_Bag: "KM12MOD_DepOM p (inp\<lparr>Bag := b\<rparr>) = KM12MOD_DepOM p inp"
  by (simp add: fun_eq_iff KM12MOD_DepOM_def KM12MOD_phi_def KM12MOD_Bps_def)

text \<open>
  Claim C10. \<^verbatim>\<open>KM12MOD.organic_deposition\<close> is independent of the standing biomass: two
  input states that differ only in the \<^verbatim>\<open>Bag\<close> buffer (the same \<open>zh\<close>, \<open>pft\<close>, \<open>Tair\<close>,
  \<open>MHHW\<close>, day of year, \<open>DepOM\<close> buffer and parameters) give the same result.
\<close>

theorem KM12MOD_organic_deposition_ignores_Bag:
  "KM12MOD_organic_deposition p (inp\<lparr>Bag := b\<rparr>) = KM12MOD_organic_deposition p inp"
  by (simp add: KM12MOD_organic_deposition_def Let_def KM12MOD_indice_Bag KM12MOD_DepOM_Bag)

subsection \<open>The step of VDK05MOD\<close>

text \<open>
  Claim C1 says that \<^verbatim>\<open>VDK05MOD.aboveground_biomass\<close> sets a cell with pft in \<open>[2, 5]\<close> to
  \<open>max(0, Bag * (1 + 0.5 * A * dt') / (1 - 0.5 * A * dt'))\<close> with \<open>dt' = dt / 3.1536e7\<close>.
  Line 104 has no factor \<open>0.5\<close>. On the salt marsh cell below the net rate is \<open>A = 1\<close>
  per year and the step a tenth of a year: the method returns \<open>1.1 / 0.9 = 11/9\<close>, the
  formula of the claim is \<open>1.05 / 0.95 = 21/19\<close>.
\<close>

theorem VDK05MOD_aboveground_biomass_step:
  "VDK05MOD_indice (ex_inputs\<lparr>zh := [1]\<rparr>) 0
   \<and> Bag (ex_inputs\<lparr>zh := [1]\<rparr>) = [1]
   \<and> VDK05MOD_A ex_params (ex_inputs\<lparr>zh := [1]\<rparr>) 0 = 1
   \<and> dt (ex_inputs\<lparr>zh := [1]\<rparr>) / 31536000 = 1 / 10
   \<and> VDK05MOD_aboveground_biomass ex_params (ex_inputs\<lparr>zh := [1]\<rparr>) = Inr [11 / 9]
   \<and> max 0 (Bag (ex_inputs\<lparr>zh := [1]\<rparr>) ! 0
              * (1 + 0.5 * VDK05MOD_A ex_params (ex_inputs\<lparr>zh := [1]\<rparr>) 0
                       * (dt (ex_inputs\<lparr>zh := [1]\<rparr>) / 31536000))
              / (1 - 0.5 * VDK05MOD_A ex_params (ex_inputs\<lparr>zh := [1]\<rparr>) 0
                       * (dt (ex_inputs\<lparr>zh := [1]\<rparr>) / 31536000)))
       = 21 / 19"
  by (simp add: VDK05MOD_aboveground_biomass_def VDK05MOD_indice_def VDK05MOD_Bag_def
      VDK05MOD_A_def VDK05MOD_fault_def eval_defs)

subsection \<open>The mangrove diameter of K16MOD\<close>

lemma K16MOD_init_length:
  "length (Md (K16MOD_init nx)) = nx" "length (Mh (K16MOD_init nx)) = nx"
  by (simp_all add: K16MOD_init_def)

lemma K16MOD_Md_init: "i < nx \<Longrightarrow> K16MOD_Md p (K16MOD_init nx) inp i = 0"
  by (simp add: K16MOD_Md_def K16MOD_init_def)

lemma K16MOD_new_Md_init:
  "i < nx \<Longrightarrow> masked_assign (Md (K16MOD_init nx)) m (K16MOD_Md p (K16MOD_init nx) inp) ! i = 0"
  by (simp add: nth_masked_assign K16MOD_init_length K16MOD_Md_init) (simp add: K16MOD_init_def)

lemma in_table_marsh: "5 \<le> length tbl \<Longrightarrow> k = 2 \<or> k = 3 \<or> k = 4 \<Longrightarrow> in_table tbl k"
  by (auto simp: in_table_def)

lemma K16MOD_mangrove_init:
  assumes "length bag = nx" "i < nx" "K16MOD_indice5 inp i"
  shows "K16MOD_mangrove p (K16MOD_init nx) inp bag = Inl FloatingPointError"
proof -
  have "masked_assign (Md (K16MOD_init nx)) (K16MOD_indice5 inp)
          (K16MOD_Md p (K16MOD_init nx) inp) ! i = 0"
    using assms by (simp add: K16MOD_new_Md_init)
  then have "some_cell nx (K16MOD_indice5 inp)
     (\<lambda>i. masked_assign (Md (K16MOD_init nx)) (K16MOD_indice5 inp)
             (K16MOD_Md p (K16MOD_init nx) inp) ! i = 0
         \<or> masked_assign (Md (K16MOD_init nx)) (K16MOD_indice5 inp)
             (K16MOD_Md p (K16MOD_init nx) inp) ! i < 0)"
    using assms by (auto simp: some_cell_iff)
  then show ?thesis
    using assms by (simp add: K16MOD_mangrove_def Let_def)
qed

text \<open>
  Claim C9. A K16MOD instance is constructed with \<open>Md\<close> and \<open>Mh\<close> all zero. Let the
  buffers of the first call have the length \<open>nx\<close> of the instance, let the \<open>Bmax\<close> table
  have an entry for the marsh pfts (no IndexError), and let cell \<open>i\<close> be a mangrove cell:
  \<open>pft = 5\<close> and \<open>0 \<le> zh \<le> 0.5 * TR\<close>. Then the cell is selected by line 392; with
  \<open>TR\<close>, \<open>Mdmax\<close> and \<open>Mhmax\<close> not zero, lines 393-397 divide by nothing that is zero
  there; the diameter that line 395 stores for the cell is 0 again, its increment being
  proportional to the old diameter; and line 399 divides \<open>0.5\<close> by it: the call ends in
  the floating-point fault.
\<close>

theorem K16MOD_first_call_divides_by_zero:
  assumes "length (zh inp) = nx" and "length (pft inp) = nx" and "length (Bag inp) = nx"
      and "5 \<le> length (Bmax p)"
      and "i < nx" and "pft inp ! i = 5" and "0 \<le> zh inp ! i" and "zh inp ! i \<le> 0.5 * TR inp"
  shows "Md (K16MOD_init nx) = replicate nx 0 \<and> Mh (K16MOD_init nx) = replicate nx 0
       \<and> K16MOD_indice5 inp i
       \<and> (TR inp \<noteq> 0 \<and> Mdmax p \<noteq> 0 \<and> Mhmax p \<noteq> 0
            \<longrightarrow> \<not> K16MOD_Md_fault p (K16MOD_init nx) inp i)
       \<and> masked_assign (Md (K16MOD_init nx)) (K16MOD_indice5 inp)
            (K16MOD_Md p (K16MOD_init nx) inp) ! i = 0
       \<and> K16MOD_aboveground_biomass p (K16MOD_init nx) inp = Inl FloatingPointError"
proof -
  have sel: "K16MOD_indice5 inp i"
    using assms by (simp add: K16MOD_indice5_def K16MOD_indice_zh_def)
  have nofault: "TR inp \<noteq> 0 \<and> Mdmax p \<noteq> 0 \<and> Mhmax p \<noteq> 0
      \<longrightarrow> \<not> K16MOD_Md_fault p (K16MOD_init nx) inp i"
    using assms by (simp add: K16MOD_Md_fault_def K16MOD_init_def)
  have md: "masked_assign (Md (K16MOD_init nx)) (K16MOD_indice5 inp)
              (K16MOD_Md p (K16MOD_init nx) inp) ! i = 0"
    using assms by (simp add: K16MOD_new_Md_init)
  have noidx: "\<not> some_cell nx (\<lambda>i. K16MOD_indice2 inp i \<or> K16MOD_indice34 inp i)
                   (\<lambda>i. \<not> in_table (Bmax p) (pft inp ! i))"
    using assms(4)
    by (auto simp: some_cell_iff K16MOD_indice2_def K16MOD_indice34_def in_table_marsh)
  have "K16MOD_aboveground_biomass p (K16MOD_init nx) inp = Inl FloatingPointError"
    using assms(1-3) noidx K16MOD_mangrove_init [OF _ assms(5) sel]
    by (simp add: K16MOD_aboveground_biomass_def Let_def length_masked_assign K16MOD_init_length)
  with sel nofault md show ?thesis by (simp add: K16MOD_init_def)
qed

theorem K16MOD_first_call_divides_by_zero_witness:
  "length (zh ex_mangrove) = 1 \<and> length (pft ex_mangrove) = 1 \<and> length (Bag ex_mangrove) = 1
   \<and> 5 \<le> length (Bmax ex_params)
   \<and> (0::nat) < 1 \<and> pft ex_mangrove ! 0 = 5 \<and> 0 \<le> zh ex_mangrove ! 0
   \<and> zh ex_mangrove ! 0 \<le> 0.5 * TR ex_mangrove
   \<and> TR ex_mangrove \<noteq> 0 \<and> Mdmax ex_params \<noteq> 0 \<and> Mhmax ex_params \<noteq> 0
   \<and> \<not> K16MOD_Md_fault ex_params (K16MOD_init 1) ex_mangrove 0
   \<and> masked_assign (Md (K16MOD_init 1)) (K16MOD_indice5 ex_mangrove)
        (K16MOD_Md ex_params (K16MOD_init 1) ex_mangrove) ! 0 = 0
   \<and> K16MOD_aboveground_biomass ex_params (K16MOD_init 1) ex_mangrove = Inl FloatingPointError"
proof -
  have h: "length (zh ex_mangrove) = 1" "length (pft ex_mangrove) = 1"
    "length (Bag ex_mangrove) = 1" "5 \<le> length (Bmax ex_params)" "(0::nat) < 1"
    "pft ex_mangrove ! 0 = 5" "0 \<le> zh ex_mangrove ! 0"
    "zh ex_mangrove ! 0 \<le> 0.5 * TR ex_mangrove"
    by (simp_all add: ex_mangrove_def eval_defs)
  have nz: "TR ex_mangrove \<noteq> 0" "Mdmax ex_params \<noteq> 0" "Mhmax ex_params \<noteq> 0"
    by (simp_all add: ex_mangrove_def eval_defs)
  from K16MOD_first_call_divides_by_zero [OF h] h nz show ?thesis by blast
qed

lemma K16MOD_aboveground_biomass_Inr:
  assumes "K16MOD_aboveground_biomass p st inp = Inr (st', out)"
  shows "length (Md st) = length (Bag inp)"
    and "Md st' = masked_assign (Md st) (K16MOD_indice5 inp) (K16MOD_Md p st inp)"
  using assms
  by (auto simp: K16MOD_aboveground_biomass_def K16MOD_mangrove_def Let_def split: if_splits)

text \<open>
  Whatever the inputs and the parameters, a call on the instance as constructed that
  returns leaves every diameter at 0: by induction, so does every later call.
\<close>

lemma K16MOD_fresh_Md:
  assumes "K16MOD_aboveground_biomass p (K16MOD_init nx) inp = Inr (st', out)"
  shows "Md st' = replicate nx 0"
proof -
  from K16MOD_aboveground_biomass_Inr [OF assms]
  have md: "Md st' = masked_assign (Md (K16MOD_init nx)) (K16MOD_indice5 inp)
                (K16MOD_Md p (K16MOD_init nx) inp)"
    by simp
  show ?thesis
    unfolding md
    by (rule nth_equalityI)
      (simp_all add: length_masked_assign K16MOD_init_length K16MOD_new_Md_init)
qed

text \<open>
  Claim C6 says that on a mangrove cell (\<open>pft = 5\<close>, \<open>0 \<le> zh \<le> MHT\<close>) with a positive
  inundation index, positive \<open>Gmgv\<close> and positive \<open>dt\<close>, every call of
  \<^verbatim>\<open>aboveground_biomass\<close> strictly increases \<open>Md\<close> at the cell. The constructor sets
  \<open>Md\<close> to 0 (line 343) and the increment of lines 395-397 is a multiple of \<open>Md\<close>: on the
  mangrove cell below the index is \<open>1/2\<close>, \<open>Gmgv\<close> and \<open>dt\<close> are 1, and the first call
  stores the diameter 0 again, then divides by it in line 399.
\<close>

theorem K16MOD_Md_stuck_at_zero:
  "pft ex_mangrove ! 0 = 5 \<and> 0 \<le> zh ex_mangrove ! 0 \<and> zh ex_mangrove ! 0 \<le> 0.5 * TR ex_mangrove
   \<and> K16MOD_I ex_mangrove 0 = 1 / 2 \<and> Gmgv ex_params = 1 \<and> dt ex_mangrove = 1
   \<and> Md (K16MOD_init 1) = [0]
   \<and> masked_assign (Md (K16MOD_init 1)) (K16MOD_indice5 ex_mangrove)
        (K16MOD_Md ex_params (K16MOD_init 1) ex_mangrove) = [0]
   \<and> K16MOD_aboveground_biomass ex_params (K16MOD_init 1) ex_mangrove = Inl FloatingPointError"
  by (simp add: K16MOD_eval K16MOD_init_def eval_defs)

subsection \<open>What a masked assignment leaves\<close>



















subsection \<open>Non-negative buffers\<close>

lemma nonneg_nth: "nonneg xs \<longleftrightarrow> (\<forall>i<length xs. 0 \<le> xs ! i)"
  by (simp add: nonneg_def list_all_length)

lemma nonneg_masked_assign:
  "nonneg buf \<Longrightarrow> (\<And>i. i < length buf \<Longrightarrow> m i \<Longrightarrow> 0 \<le> v i) \<Longrightarrow> nonneg (masked_assign buf m v)"
  by (simp add: nonneg_nth length_masked_assign nth_masked_assign)

lemma nonneg_replicate: "nonneg (replicate n 0)"
  by (simp add: nonneg_nth)

lemma param_at_nonneg: "nonneg tbl \<Longrightarrow> in_table tbl k \<Longrightarrow> 0 \<le> param_at tbl k"
  by (auto simp: nonneg_nth in_table_def param_at_def)

lemma NULLMOD_ab_nonneg:
  "NULLMOD_aboveground_biomass p inp = Inr out \<Longrightarrow> nonneg (Bag inp) \<Longrightarrow> nonneg out"
  by (auto simp: NULLMOD_aboveground_biomass_def Let_def NULLMOD_Bag_def
      intro!: nonneg_masked_assign split: if_splits)

lemma VDK05MOD_ab_nonneg:
  "VDK05MOD_aboveground_biomass p inp = Inr out \<Longrightarrow> nonneg (Bag inp) \<Longrightarrow> nonneg out"
  by (auto simp: VDK05MOD_aboveground_biomass_def Let_def VDK05MOD_Bag_def
      intro!: nonneg_masked_assign split: if_splits)

lemma M12MOD_ab_nonneg:
  "M12MOD_aboveground_biomass p inp = Inr out \<Longrightarrow> nonneg (Bag inp) \<Longrightarrow> nonneg out"
  by (auto simp: M12MOD_aboveground_biomass_def Let_def M12MOD_Bag_def
      intro!: nonneg_masked_assign split: if_splits)

lemma KM12MOD_ab_nonneg:
  "KM12MOD_aboveground_biomass p inp = Inr out \<Longrightarrow> nonneg (Bag inp) \<Longrightarrow> nonneg out"
  by (auto simp: KM12MOD_aboveground_biomass_def Let_def KM12MOD_Bag_def
      intro!: nonneg_masked_assign split: if_splits)

lemma KM12MOD_bg_nonneg:
  "KM12MOD_belowground_biomass p inp = Inr out \<Longrightarrow> nonneg (Bbg inp) \<Longrightarrow> nonneg out"
  by (auto simp: KM12MOD_belowground_biomass_def Let_def KM12MOD_Bbg_def
      intro!: nonneg_masked_assign split: if_splits)

lemma KM12MOD_od_nonneg:
  "KM12MOD_organic_deposition p inp = Inr out \<Longrightarrow> nonneg out"
  by (auto simp: KM12MOD_organic_deposition_def Let_def KM12MOD_DepOM_def
      intro!: nonneg_masked_assign nonneg_replicate split: if_splits)

lemma M12MOD_od_nonneg:
  assumes "M12MOD_organic_deposition p inp = Inr out"
      and "nonneg (Bag inp)" "nonneg (Kr p)" "nonneg (phi p)" "nonneg (Tr p)"
  shows "nonneg out"
proof -
  from assms(1) have out: "out = masked_assign (replicate (length (DepOM inp)) 0)
       (\<lambda>i. Bag inp ! i > 0) (M12MOD_DepOM p inp)"
    and tbl: "\<not> some_cell (length (DepOM inp)) (\<lambda>i. Bag inp ! i > 0)
                 (\<lambda>i. \<not> in_tables [Kr p, phi p, Tr p] (pft inp ! i))"
    by (simp_all add: M12MOD_organic_deposition_def Let_def split: if_splits)
  show ?thesis
    unfolding out
  proof (rule nonneg_masked_assign [OF nonneg_replicate])
    fix i assume "i < length (replicate (length (DepOM inp)) (0::real))" and "0 < Bag inp ! i"
    with tbl have "in_table (Kr p) (pft inp ! i)" "in_table (phi p) (pft inp ! i)"
      "in_table (Tr p) (pft inp ! i)"
      by (auto simp: some_cell_iff in_tables_def)
    with assms(3-5) have "0 \<le> param_at (Kr p) (pft inp ! i)" "0 \<le> param_at (phi p) (pft inp ! i)"
      "0 \<le> param_at (Tr p) (pft inp ! i)"
      by (simp_all add: param_at_nonneg)
    with \<open>0 < Bag inp ! i\<close> show "0 \<le> M12MOD_DepOM p inp i"
      by (simp add: M12MOD_DepOM_def)
  qed
qed

lemma DA07MOD_od_nonneg:
  assumes "DA07MOD_organic_deposition TOL p inp = Inr out"
      and "nonneg (Bag inp)" "nonneg (Bmax p)" "0 \<le> Qom0 p" "0 \<le> rhoOM p"
  shows "nonneg out"
proof -
  from assms(1) have out: "out = masked_assign (replicate (length (DepOM inp)) 0)
       (\<lambda>i. Bag inp ! i > TOL) (DA07MOD_DepOM p inp)"
    and tbl: "\<not> some_cell (length (DepOM inp)) (\<lambda>i. Bag inp ! i > TOL)
                 (\<lambda>i. \<not> in_table (Bmax p) (pft inp ! i))"
    and len: "length (Bag inp) = length (DepOM inp)"
    by (simp_all add: DA07MOD_organic_deposition_def Let_def split: if_splits)
  show ?thesis
    unfolding out
  proof (rule nonneg_masked_assign [OF nonneg_replicate])
    fix i assume i: "i < length (replicate (length (DepOM inp)) (0::real))" and "TOL < Bag inp ! i"
    with tbl have "in_table (Bmax p) (pft inp ! i)"
      by (auto simp: some_cell_iff)
    with assms(3) have "0 \<le> param_at (Bmax p) (pft inp ! i)"
      by (simp add: param_at_nonneg)
    moreover from assms(2) i len have "0 \<le> Bag inp ! i"
      by (simp add: nonneg_nth)
    ultimately show "0 \<le> DA07MOD_DepOM p inp i"
      using assms(4,5) by (simp add: DA07MOD_DepOM_def)
  qed
qed

lemma DA07MOD_ab_nonneg:
  assumes "DA07MOD_aboveground_biomass p inp = Inr out"
      and "nonneg (Bag inp)" "nonneg (Bmax p)" "0 \<le> omega p" "omega p \<le> 1"
  shows "nonneg out"
proof -
  from assms(1) have out: "out = masked_assign (Bag inp) (DA07MOD_indice inp) (DA07MOD_Bag p inp)"
    and tbl: "\<not> some_cell (length (Bag inp)) (DA07MOD_indice inp)
                 (\<lambda>i. \<not> in_table (Bmax p) (pft inp ! i))"
    by (simp_all add: DA07MOD_aboveground_biomass_def Let_def split: if_splits)
  show ?thesis
    unfolding out
  proof (rule nonneg_masked_assign [OF assms(2)])
    fix i assume i: "i < length (Bag inp)" and sel: "DA07MOD_indice inp i"
    with tbl have "in_table (Bmax p) (pft inp ! i)"
      by (auto simp: some_cell_iff)
    with assms(3) have b: "0 \<le> param_at (Bmax p) (pft inp ! i)"
      by (simp add: param_at_nonneg)
    from sel have z: "0 \<le> 0.5 * TR inp - zh inp ! i" "0 \<le> 0.5 * TR inp"
      by (simp_all add: DA07MOD_indice_def)
    define Bps where "Bps = (0.5 * TR inp - zh inp ! i) / (0.5 * TR inp) * param_at (Bmax p) (pft inp ! i)"
    have "0 \<le> (0.5 * TR inp - zh inp ! i) / (0.5 * TR inp)"
      using z by (rule divide_nonneg_nonneg)
    then have Bps: "0 \<le> Bps"
      unfolding Bps_def using b by (rule mult_nonneg_nonneg)
    have s: "0 \<le> sin (pi * real_of_int (month inp) / 6 - mps p * pi / 12) + 1"
      using sin_ge_minus_one [of "pi * real_of_int (month inp) / 6 - mps p * pi / 12"] by linarith
    have "0 \<le> 0.5 * Bps * (1 - omega p)"
      using Bps assms(5) by simp
    from mult_nonneg_nonneg [OF this s] mult_nonneg_nonneg [OF assms(4) Bps]
    have "0 \<le> 0.5 * Bps * (1 - omega p) * (sin (pi * real_of_int (month inp) / 6 - mps p * pi / 12) + 1)
             + omega p * Bps"
      by (rule add_nonneg_nonneg)
    then show "0 \<le> DA07MOD_Bag p inp i"
      unfolding DA07MOD_Bag_def Let_def Bps_def .
  qed
qed

lemma K16MOD_od_nonneg:
  assumes "K16MOD_organic_deposition p inp = Inr out"
      and "nonneg (Bag inp)" "0 \<le> rhoOM p" "0 \<le> gammaB p"
  shows "nonneg out"
  using assms
  by (auto simp: K16MOD_organic_deposition_def nonneg_nth split: if_splits)

lemma K16MOD_mangrove_nonneg:
  assumes "K16MOD_mangrove p st inp bag = Inr (st', out)" and "nonneg bag"
  shows "nonneg out"
proof -
  define Md' where "Md' = masked_assign (Md st) (K16MOD_indice5 inp) (K16MOD_Md p st inp)"
  from assms(1) have out: "out = masked_assign bag (K16MOD_indice5 inp)
      (\<lambda>i. 0.5 / Md' ! i * 0.308 * (Md' ! i) powr 2.11)"
    and pos: "\<not> some_cell (length bag) (K16MOD_indice5 inp) (\<lambda>i. Md' ! i = 0 \<or> Md' ! i < 0)"
    unfolding Md'_def
    by (simp_all add: K16MOD_mangrove_def Let_def split: if_splits)
  show ?thesis
    unfolding out
  proof (rule nonneg_masked_assign [OF assms(2)])
    fix i assume "i < length bag" and "K16MOD_indice5 inp i"
    with pos have "0 < Md' ! i" by (auto simp: some_cell_iff)
    then show "0 \<le> 0.5 / Md' ! i * 0.308 * (Md' ! i) powr 2.11"
      by simp
  qed
qed

lemma K16MOD_ab_nonneg:
  assumes "K16MOD_aboveground_biomass p st inp = Inr (st', out)" and "nonneg (Bag inp)"
  shows "nonneg out"
proof -
  define bag2 where "bag2 = masked_assign (Bag inp) (K16MOD_indice2 inp)
      (\<lambda>i. K16MOD_marsh_Bag (K16MOD_rz2 inp i) (K16MOD_mz2 inp i) (param_at (Bmax p) (pft inp ! i)) (dt inp) (Bag inp ! i))"
  define bag34 where "bag34 = masked_assign bag2 (K16MOD_indice34 inp)
      (\<lambda>i. K16MOD_marsh_Bag (K16MOD_rz34 inp i) (K16MOD_mz34 inp i) (param_at (Bmax p) (pft inp ! i)) (dt inp) (bag2 ! i))"
  have "nonneg bag2"
    unfolding bag2_def by (rule nonneg_masked_assign [OF assms(2)]) (simp add: K16MOD_marsh_Bag_def)
  then have n: "nonneg bag34"
    unfolding bag34_def by (rule nonneg_masked_assign) (simp add: K16MOD_marsh_Bag_def)
  from assms(1) have "K16MOD_mangrove p st inp bag34 = Inr (st', out)"
    unfolding K16MOD_aboveground_biomass_def Let_def bag2_def bag34_def
    by (simp split: if_splits)
  from K16MOD_mangrove_nonneg [OF this n] show ?thesis .
qed

lemma K16MOD_bg_nonneg:
  assumes "K16MOD_belowground_biomass p st inp = Inr out"
      and "nonneg (Bbg inp)" "nonneg (Bag inp)" "nonneg (phi p)"
  shows "nonneg out"
proof -
  define bbg234 where "bbg234 = masked_assign (Bbg inp) (K16MOD_indice234 inp)
                             (\<lambda>i. param_at (phi p) (pft inp ! i) * Bag inp ! i)"
  from assms(1) have out: "out = masked_assign bbg234 (K16MOD_indice5 inp)
                        (\<lambda>i. 0.5 / Md st ! i * 1.28 * (Md st ! i) powr 1.17)"
    and tbl: "\<not> some_cell (length (Bbg inp)) (K16MOD_indice234 inp) (\<lambda>i. \<not> in_table (phi p) (pft inp ! i))"
    and pos: "\<not> some_cell (length (Bbg inp)) (K16MOD_indice5 inp) (\<lambda>i. Md st ! i = 0 \<or> Md st ! i < 0)"
    and len: "length (Bag inp) = length (Bbg inp)"
    unfolding bbg234_def
    by (simp_all add: K16MOD_belowground_biomass_def Let_def split: if_splits)
  have n: "nonneg bbg234"
    unfolding bbg234_def
  proof (rule nonneg_masked_assign [OF assms(2)])
    fix i assume i: "i < length (Bbg inp)" and "K16MOD_indice234 inp i"
    with tbl have "in_table (phi p) (pft inp ! i)" by (auto simp: some_cell_iff)
    with assms(4) have "0 \<le> param_at (phi p) (pft inp ! i)" by (simp add: param_at_nonneg)
    moreover from assms(3) i len have "0 \<le> Bag inp ! i" by (simp add: nonneg_nth)
    ultimately show "0 \<le> param_at (phi p) (pft inp ! i) * Bag inp ! i" by simp
  qed
  show ?thesis
    unfolding out
  proof (rule nonneg_masked_assign [OF n])
    fix i assume "i < length bbg234" and "K16MOD_indice5 inp i"
    with pos have "0 < Md st ! i" by (auto simp: some_cell_iff bbg234_def length_masked_assign)
    then show "0 \<le> 0.5 / Md st ! i * 1.28 * (Md st ! i) powr 1.17" by simp
  qed
qed

lemma KM12MOD_soilcarbon_decay_nonneg:
  assumes "KM12MOD_soilcarbon_decay p inp = Inr out"
      and "nonneg (map fst (OM inp))" "nonneg (map snd (OM inp))" "0 \<le> kl0 p" "0 \<le> kr0 p"
      and "0 \<le> 1 + (Tair inp - TrefOM p) * sigmaOM p"
  shows "nonneg (map fst out) \<and> nonneg (map snd out)"
proof -
  from assms(1) have out: "out = map (\<lambda>(Cl, Cr).
                  (((1 + (Tair inp - TrefOM p) * sigmaOM p) * kl0 p / 31536000) * Cl,
                   ((1 + (Tair inp - TrefOM p) * sigmaOM p) * kr0 p / 31536000) * Cr)) (OM inp)"
    by (simp add: KM12MOD_soilcarbon_decay_def Let_def split: if_splits)
  show ?thesis
    unfolding out using assms(2-6)
    by (auto simp: nonneg_nth split_beta)
qed

subsection \<open>The methods on the concrete transect\<close>

lemma ev_NULLMOD_od: "NULLMOD_organic_deposition ex_transect = Inr [0, 0]"
  by (simp add: NULLMOD_organic_deposition_def eval_defs)

lemma ev_NULLMOD_ab: "NULLMOD_aboveground_biomass ex_params ex_transect = Inr [0.146, 3]"
  by (simp add: NULLMOD_aboveground_biomass_def NULLMOD_indice_def NULLMOD_Bag_def eval_defs)

lemma ev_VDK05MOD_od: "VDK05MOD_organic_deposition ex_transect = Inr [0, 0]"
  by (simp add: VDK05MOD_organic_deposition_def eval_defs)

lemma ev_VDK05MOD_ab: "VDK05MOD_aboveground_biomass ex_params ex_transect = Inr [34 / 31, 3]"
  by (simp add: VDK05MOD_aboveground_biomass_def VDK05MOD_indice_def VDK05MOD_Bag_def
      VDK05MOD_A_def VDK05MOD_fault_def eval_defs)

lemma ev_M12MOD_od:
  "M12MOD_organic_deposition ex_params ex_transect = Inr [1 / 420480000, 1 / 140160000]"
  by (simp add: M12MOD_organic_deposition_def M12MOD_DepOM_def eval_defs)


lemma ev_M12MOD_ab: "M12MOD_aboveground_biomass ex_params ex_transect = Inr [0.146, 3]"
  by (simp add: M12MOD_aboveground_biomass_def M12MOD_indice_def M12MOD_Bag_def eval_defs)

lemma ev_DA07MOD_od:
  "DA07MOD_organic_deposition (1 / 1000000) ex_params ex_transect
     = Inr [1 / 63072000, 1 / 21024000]"
  by (simp add: DA07MOD_organic_deposition_def DA07MOD_DepOM_def eval_defs)


lemma ev_DA07MOD_ab: "DA07MOD_aboveground_biomass ex_params ex_transect = Inr [0.4, 3]"
  by (simp add: DA07MOD_aboveground_biomass_def DA07MOD_indice_def DA07MOD_Bag_def eval_defs)

lemma ev_KM12MOD_od: "KM12MOD_organic_deposition ex_params ex_transect = Inr [0, 0]"
  by (simp add: KM12MOD_organic_deposition_def KM12MOD_indice_def KM12MOD_DepOM_def
      KM12MOD_Bps_def KM12MOD_phi_def eval_defs)


lemma ev_KM12MOD_ab: "KM12MOD_aboveground_biomass ex_params ex_transect = Inr [1.4, 3]"
  by (simp add: KM12MOD_aboveground_biomass_def KM12MOD_indice_def KM12MOD_Bag_def
      KM12MOD_Bps_def eval_defs)

lemma ev_KM12MOD_bg: "KM12MOD_belowground_biomass ex_params ex_transect = Inr [1.7, 5]"
  by (simp add: KM12MOD_belowground_biomass_def KM12MOD_indice_def KM12MOD_Bbg_def
      KM12MOD_phi_def eval_defs)

lemma ev_KM12MOD_decay:
  "KM12MOD_soilcarbon_decay ex_params ex_transect
     = Inr [(1 / 31536000, 1 / 31536000000), (1 / 31536000, 1 / 31536000000)]"
  by (simp add: KM12MOD_soilcarbon_decay_def eval_defs)

lemma ev_K16MOD_od:
  "K16MOD_organic_deposition ex_params ex_transect = Inr [1 / 15768000000, 1 / 5256000000]"
  by (simp add: K16MOD_organic_deposition_def eval_defs)

lemma ev_K16MOD_ab:
  "K16MOD_aboveground_biomass ex_params ex_marsh_state ex_transect
     = Inr (ex_marsh_state, [401 / 399, 3])"
  by (simp add: K16MOD_eval eval_defs)

lemma ev_K16MOD_bg:
  "K16MOD_belowground_biomass ex_params ex_marsh_state ex_transect = Inr [0.3, 5]"
  by (simp add: K16MOD_belowground_biomass_def K16MOD_indice234_def K16MOD_indice5_def
      K16MOD_indice_zh_def eval_defs)






lemma ex_valid:
  "nonneg (Bag ex_transect)" "nonneg (Bbg ex_transect)"
  "nonneg (map fst (OM ex_transect))" "nonneg (map snd (OM ex_transect))"
  "nonneg (Bmax ex_params)" "nonneg (Kr ex_params)" "nonneg (phi ex_params)" "nonneg (Tr ex_params)"
  "0 \<le> Qom0 ex_params" "0 \<le> rhoOM ex_params" "0 \<le> gammaB ex_params"
  "0 \<le> omega ex_params" "omega ex_params \<le> 1" "0 \<le> kl0 ex_params" "0 \<le> kr0 ex_params"
  by (simp_all add: nonneg_def list_all_iff ex_transect_def ex_params_def table_def)


subsection \<open>Cells outside the validity predicate\<close>






subsection \<open>Cells outside the vegetation range\<close>







subsection \<open>Non-negative outputs\<close>

text \<open>
  Claim C2, as stated, fails for \<^verbatim>\<open>KM12MOD.soilcarbon_decay\<close>, which has no clamp: with
  pools of 1, \<open>kl0 = 1\<close> and \<open>kr0 = 0.001\<close> (inside the ranges of the docstring), a
  reference temperature of 300 K, \<open>sigmaOM = 0.05\<close> and a soil at 250 K, both decay rates
  are negative.
\<close>

theorem KM12MOD_soilcarbon_decay_negative_counterexample:
  "OM (ex_inputs\<lparr>Tair := 250\<rparr>) = [(1, 1)] \<and> kl0 ex_params = 1 \<and> kr0 ex_params = 1 / 1000
   \<and> TrefOM ex_params = 300 \<and> sigmaOM ex_params = 1 / 20
   \<and> KM12MOD_soilcarbon_decay ex_params (ex_inputs\<lparr>Tair := 250\<rparr>)
        = Inr [(- (1 / 21024000), - (1 / 21024000000))]"
  by (simp add: KM12MOD_soilcarbon_decay_def eval_defs)


text \<open>
  Claim C2, amended. Let the biomass buffers and the soil carbon pools be non-negative, the
  tables \<open>Bmax\<close>, \<open>Kr\<close>, \<open>phi\<close>, \<open>Tr\<close> and the scalars \<open>Qom0\<close>, \<open>rhoOM\<close>, \<open>gammaB\<close>,
  \<open>kl0\<close>, \<open>kr0\<close> non-negative, and \<open>omega\<close> in \<open>[0, 1]\<close>. Then, for every method of
  every variant, every element of the returned buffer is at least 0, provided that the
  call raises no exception and meets no floating-point fault, that is, divides by nothing
  that is zero and raises no negative diameter to a fractional power (the result \<open>Inr\<close> of
  the embedding); for \<^verbatim>\<open>KM12MOD.soilcarbon_decay\<close> the temperature factor
  \<open>1 + (Tsoi - TrefOM) * sigmaOM\<close> must be at least 0 as well. The proviso leaves out the
  calls in which numpy stores \<^verbatim>\<open>nan\<close>: \<^verbatim>\<open>aboveground_biomass\<close> and
  \<^verbatim>\<open>belowground_biomass\<close> of K16MOD on a mangrove cell of diameter 0, as on the instance
  as constructed, and the methods that divide by \<open>MHT\<close> or \<open>MHHW\<close> when it is 0.
\<close>

theorem outputs_nonnegative:
  assumes "nonneg (Bag inp)" and "nonneg (Bbg inp)"
      and "nonneg (map fst (OM inp))" and "nonneg (map snd (OM inp))"
      and "nonneg (Bmax p)" and "nonneg (Kr p)" and "nonneg (phi p)" and "nonneg (Tr p)"
      and "0 \<le> Qom0 p" and "0 \<le> rhoOM p" and "0 \<le> gammaB p"
      and "0 \<le> omega p" and "omega p \<le> 1" and "0 \<le> kl0 p" and "0 \<le> kr0 p"
  shows "(\<forall>out. NULLMOD_organic_deposition inp = Inr out \<longrightarrow> nonneg out)
       \<and> (\<forall>out. NULLMOD_aboveground_biomass p inp = Inr out \<longrightarrow> nonneg out)
       \<and> (\<forall>out. VDK05MOD_organic_deposition inp = Inr out \<longrightarrow> nonneg out)
       \<and> (\<forall>out. VDK05MOD_aboveground_biomass p inp = Inr out \<longrightarrow> nonneg out)
       \<and> (\<forall>out. M12MOD_organic_deposition p inp = Inr out \<longrightarrow> nonneg out)
       \<and> (\<forall>out. M12MOD_aboveground_biomass p inp = Inr out \<longrightarrow> nonneg out)
       \<and> (\<forall>TOL out. DA07MOD_organic_deposition TOL p inp = Inr out \<longrightarrow> nonneg out)
       \<and> (\<forall>out. DA07MOD_aboveground_biomass p inp = Inr out \<longrightarrow> nonneg out)
       \<and> (\<forall>out. KM12MOD_organic_deposition p inp = Inr out \<longrightarrow> nonneg out)
       \<and> (\<forall>out. KM12MOD_aboveground_biomass p inp = Inr out \<longrightarrow> nonneg out)
       \<and> (\<forall>out. KM12MOD_belowground_biomass p inp = Inr out \<longrightarrow> nonneg out)
       \<and> (\<forall>out. 0 \<le> 1 + (Tair inp - TrefOM p) * sigmaOM p
                \<and> KM12MOD_soilcarbon_decay p inp = Inr out \<longrightarrow>
              nonneg (map fst out) \<and> nonneg (map snd out))
       \<and> (\<forall>out. K16MOD_organic_deposition p inp = Inr out \<longrightarrow> nonneg out)
       \<and> (\<forall>st st' out. K16MOD_aboveground_biomass p st inp = Inr (st', out) \<longrightarrow> nonneg out)
       \<and> (\<forall>st out. K16MOD_belowground_biomass p st inp = Inr out \<longrightarrow> nonneg out)"
proof (intro conjI allI impI)
  fix out assume "NULLMOD_organic_deposition inp = Inr out"
  then show "nonneg out"
    by (auto simp: NULLMOD_organic_deposition_def nonneg_replicate)
next
  fix out assume "VDK05MOD_organic_deposition inp = Inr out"
  then show "nonneg out"
    by (auto simp: VDK05MOD_organic_deposition_def nonneg_replicate)
next
  fix out assume "0 \<le> 1 + (Tair inp - TrefOM p) * sigmaOM p
                \<and> KM12MOD_soilcarbon_decay p inp = Inr out"
  then show "nonneg (map fst out)" "nonneg (map snd out)"
    using KM12MOD_soilcarbon_decay_nonneg [of p inp out] assms by simp_all
qed (use assms in \<open>blast intro: NULLMOD_ab_nonneg VDK05MOD_ab_nonneg M12MOD_od_nonneg M12MOD_ab_nonneg
    DA07MOD_od_nonneg DA07MOD_ab_nonneg KM12MOD_od_nonneg KM12MOD_ab_nonneg KM12MOD_bg_nonneg
    K16MOD_od_nonneg K16MOD_ab_nonneg K16MOD_bg_nonneg\<close>)+

theorem outputs_nonnegative_witness:
  "nonneg (Bag ex_transect) \<and> nonneg (Bbg ex_transect)
   \<and> nonneg (map fst (OM ex_transect)) \<and> nonneg (map snd (OM ex_transect))
   \<and> nonneg (Bmax ex_params) \<and> nonneg (Kr ex_params) \<and> nonneg (phi ex_params)
   \<and> nonneg (Tr ex_params)
   \<and> 0 \<le> Qom0 ex_params \<and> 0 \<le> rhoOM ex_params \<and> 0 \<le> gammaB ex_params
   \<and> 0 \<le> omega ex_params \<and> omega ex_params \<le> 1 \<and> 0 \<le> kl0 ex_params \<and> 0 \<le> kr0 ex_params
   \<and> 0 \<le> 1 + (Tair ex_transect - TrefOM ex_params) * sigmaOM ex_params
   \<and> NULLMOD_organic_deposition ex_transect = Inr [0, 0] \<and> nonneg [0, 0]
   \<and> NULLMOD_aboveground_biomass ex_params ex_transect = Inr [0.146, 3] \<and> nonneg [0.146, 3]
   \<and> VDK05MOD_organic_deposition ex_transect = Inr [0, 0]
   \<and> VDK05MOD_aboveground_biomass ex_params ex_transect = Inr [34 / 31, 3] \<and> nonneg [34 / 31, 3]
   \<and> M12MOD_organic_deposition ex_params ex_transect = Inr [1 / 420480000, 1 / 140160000]
   \<and> nonneg [1 / 420480000, 1 / 140160000]
   \<and> M12MOD_aboveground_biomass ex_params ex_transect = Inr [0.146, 3]
   \<and> DA07MOD_organic_deposition (1 / 1000000) ex_params ex_transect
        = Inr [1 / 63072000, 1 / 21024000]
   \<and> nonneg [1 / 63072000, 1 / 21024000]
   \<and> DA07MOD_aboveground_biomass ex_params ex_transect = Inr [0.4, 3] \<and> nonneg [0.4, 3]
   \<and> KM12MOD_organic_deposition ex_params ex_transect = Inr [0, 0]
   \<and> KM12MOD_aboveground_biomass ex_params ex_transect = Inr [1.4, 3] \<and> nonneg [1.4, 3]
   \<and> KM12MOD_belowground_biomass ex_params ex_transect = Inr [1.7, 5] \<and> nonneg [1.7, 5]
   \<and> KM12MOD_soilcarbon_decay ex_params ex_transect
        = Inr [(1 / 31536000, 1 / 31536000000), (1 / 31536000, 1 / 31536000000)]
   \<and> nonneg (map fst [(1 / 31536000 :: real, 1 / 31536000000 :: real), (1 / 31536000, 1 / 31536000000)])
   \<and> nonneg (map snd [(1 / 31536000 :: real, 1 / 31536000000 :: real), (1 / 31536000, 1 / 31536000000)])
   \<and> K16MOD_organic_deposition ex_params ex_transect = Inr [1 / 15768000000, 1 / 5256000000]
   \<and> nonneg [1 / 15768000000, 1 / 5256000000]
   \<and> K16MOD_aboveground_biomass ex_params ex_marsh_state ex_transect
        = Inr (ex_marsh_state, [401 / 399, 3])
   \<and> nonneg [401 / 399, 3]
   \<and> K16MOD_belowground_biomass ex_params ex_marsh_state ex_transect = Inr [0.3, 5]
   \<and> nonneg [0.3, 5]"
proof -
  have f: "0 \<le> 1 + (Tair ex_transect - TrefOM ex_params) * sigmaOM ex_params"
    by (simp add: ex_transect_def ex_params_def)
  note t = outputs_nonnegative [OF ex_valid]
  from t ev_NULLMOD_od have 1: "nonneg [0, 0]" by blast
  from t ev_NULLMOD_ab have 2: "nonneg [0.146, 3]" by blast
  from t ev_VDK05MOD_ab have 3: "nonneg [34 / 31, 3]" by blast
  from t ev_M12MOD_od have 4: "nonneg [1 / 420480000, 1 / 140160000]" by blast
  from t ev_DA07MOD_od have 5: "nonneg [1 / 63072000, 1 / 21024000]" by blast
  from t ev_DA07MOD_ab have 6: "nonneg [0.4, 3]" by blast
  from t ev_KM12MOD_ab have 7: "nonneg [1.4, 3]" by blast
  from t ev_KM12MOD_bg have 8: "nonneg [1.7, 5]" by blast
  from t ev_KM12MOD_decay f
  have 9: "nonneg (map fst [(1 / 31536000 :: real, 1 / 31536000000 :: real), (1 / 31536000, 1 / 31536000000)])"
    "nonneg (map snd [(1 / 31536000 :: real, 1 / 31536000000 :: real), (1 / 31536000, 1 / 31536000000)])"
    by blast+
  from t ev_K16MOD_od have 10: "nonneg [1 / 15768000000, 1 / 5256000000]" by blast
  from t ev_K16MOD_ab have 11: "nonneg [401 / 399, 3]" by blast
  from t ev_K16MOD_bg have 12: "nonneg [0.3, 5]" by blast
  show ?thesis
    by (intro conjI ex_valid f ev_NULLMOD_od ev_NULLMOD_ab ev_VDK05MOD_od ev_VDK05MOD_ab
        ev_M12MOD_od ev_M12MOD_ab ev_DA07MOD_od ev_DA07MOD_ab ev_KM12MOD_od ev_KM12MOD_ab
        ev_KM12MOD_bg ev_KM12MOD_decay ev_K16MOD_od ev_K16MOD_ab ev_K16MOD_bg
        1 2 3 4 5 6 7 8 9 10 11 12)
qed

end
